theory Spec2Isabelle
  imports Complex_Main "HOL-Library.Log_Nat"
begin

section \<open>JavaScript values\<close>

text \<open>
  The server (index.js) exchanges JSON with its clients and stores JavaScript objects in
  two MongoDB collections. A Number is a binary64 value: NaN, one of the two infinities,
  or a finite value, written as the rational it denotes (the two zeros are not told
  apart; \<open>===\<close> and \<open><\<close> do not tell them apart either). \<open>JOid\<close> is an ObjectId value,
  written by its hexadecimal form.
\<close>

datatype jsnum = NaN | Fin rat | PosInf | NegInf

datatype jsval =
    JUndefined
  | JNull
  | JBool bool
  | JNum jsnum
  | JStr string
  | JOid string
  | JArr "jsval list"
  | JObj "(string \<times> jsval) list"

type_synonym doc = "(string \<times> jsval) list"

text \<open>Property access \<open>obj.k\<close> (and destructuring) on a parsed JSON object: a missing
  property reads as undefined.\<close>

definition field :: "doc \<Rightarrow> string \<Rightarrow> jsval" where
  "field d k = (case map_of d k of None \<Rightarrow> JUndefined | Some v \<Rightarrow> v)"

subsection \<open>Rounding to binary64\<close>

text \<open>
  The result of \<open>-\<close> and \<open>*\<close> on finite Numbers is the exact result rounded to the
  nearest binary64 value, ties to even. \<open>exponent2 x\<close> is the \<open>e\<close> with
  \<open>2^e \<le> |x| < 2^(e+1)\<close>; a value has 53 significant bits, so its last place weighs
  \<open>2^(e - 52)\<close>, and never less than \<open>2^(-1074)\<close>; a result that rounds to \<open>2^1024\<close> or
  beyond is an infinity.
\<close>

definition pow2 :: "int \<Rightarrow> rat" where
  "pow2 k = (if 0 \<le> k then 2 ^ nat k else 1 / 2 ^ nat (- k))"

definition exponent2 :: "rat \<Rightarrow> int" where
  "exponent2 x =
     (let p = fst (quotient_of \<bar>x\<bar>); q = snd (quotient_of \<bar>x\<bar>); k = bitlen p - bitlen q
      in if pow2 k \<le> \<bar>x\<bar> then k else k - 1)"

definition round_half_even :: "rat \<Rightarrow> int" where
  "round_half_even y =
     (let f = \<lfloor>y\<rfloor>; d = y - of_int f
      in if d < 1 / 2 then f else if 1 / 2 < d then f + 1 else if even f then f else f + 1)"

definition to_double :: "rat \<Rightarrow> jsnum" where
  "to_double x =
     (if x = 0 then Fin 0
      else let e = max (exponent2 x) (- 1022);
               ulp = pow2 (e - 52);
               r = of_int (round_half_even (x / ulp)) * ulp
           in if pow2 1024 \<le> \<bar>r\<bar> then (if 0 < x then PosInf else NegInf) else Fin r)"

text \<open>\<open>Number.isSafeInteger\<close>: a whole number of magnitude at most \<open>2^53 - 1\<close>.\<close>

definition whole :: "rat \<Rightarrow> bool" where
  "whole x = (of_int \<lfloor>x\<rfloor> = x)"

definition safe_integer :: "rat \<Rightarrow> bool" where
  "safe_integer x = (whole x \<and> \<bar>x\<bar> \<le> 9007199254740991)"

subsection \<open>The Number operators of the handlers\<close>

text \<open>\<open>-\<close>, \<open>*\<close>, \<open><\<close> and \<open>===\<close> on Numbers. NaN is absorbing for the arithmetic and
  makes every comparison false.\<close>

fun js_sub :: "jsnum \<Rightarrow> jsnum \<Rightarrow> jsnum" where
  "js_sub NaN _ = NaN"
| "js_sub _ NaN = NaN"
| "js_sub (Fin a) (Fin b) = to_double (a - b)"
| "js_sub (Fin a) PosInf = NegInf"
| "js_sub (Fin a) NegInf = PosInf"
| "js_sub PosInf PosInf = NaN"
| "js_sub PosInf _ = PosInf"
| "js_sub NegInf NegInf = NaN"
| "js_sub NegInf _ = NegInf"

fun js_mul :: "jsnum \<Rightarrow> jsnum \<Rightarrow> jsnum" where
  "js_mul NaN _ = NaN"
| "js_mul _ NaN = NaN"
| "js_mul (Fin a) (Fin b) = to_double (a * b)"
| "js_mul (Fin a) PosInf = (if a = 0 then NaN else if 0 < a then PosInf else NegInf)"
| "js_mul (Fin a) NegInf = (if a = 0 then NaN else if 0 < a then NegInf else PosInf)"
| "js_mul PosInf (Fin b) = (if b = 0 then NaN else if 0 < b then PosInf else NegInf)"
| "js_mul NegInf (Fin b) = (if b = 0 then NaN else if 0 < b then NegInf else PosInf)"
| "js_mul PosInf PosInf = PosInf"
| "js_mul PosInf NegInf = NegInf"
| "js_mul NegInf PosInf = NegInf"
| "js_mul NegInf NegInf = PosInf"

fun js_lt :: "jsnum \<Rightarrow> jsnum \<Rightarrow> bool" where
  "js_lt (Fin a) (Fin b) = (a < b)"
| "js_lt (Fin a) PosInf = True"
| "js_lt NegInf (Fin b) = True"
| "js_lt NegInf PosInf = True"
| "js_lt _ _ = False"

fun js_seq :: "jsnum \<Rightarrow> jsnum \<Rightarrow> bool" where
  "js_seq (Fin a) (Fin b) = (a = b)"
| "js_seq PosInf PosInf = True"
| "js_seq NegInf NegInf = True"
| "js_seq _ _ = False"

text \<open>Truthiness, as tested by \<open>!x\<close> and \<open>if (x)\<close>.\<close>

fun truthy :: "jsval \<Rightarrow> bool" where
  "truthy JUndefined = False"
| "truthy JNull = False"
| "truthy (JBool b) = b"
| "truthy (JNum NaN) = False"
| "truthy (JNum (Fin r)) = (r \<noteq> 0)"
| "truthy (JStr s) = (s \<noteq> [])"
| "truthy _ = True"

subsection \<open>Values on their way out\<close>

text \<open>
  \<open>res.json(v)\<close> sends \<open>JSON.stringify(v)\<close>: a member whose value is undefined is left
  out, an undefined array element and a Number that is not finite become \<open>null\<close>, an
  ObjectId becomes its hexadecimal string. \<open>encode v\<close> is the JSON value the client
  reads.
\<close>

primrec encode :: "jsval \<Rightarrow> jsval" where
  "encode JUndefined = JUndefined"
| "encode JNull = JNull"
| "encode (JBool b) = JBool b"
| "encode (JNum n) = (case n of Fin r \<Rightarrow> JNum (Fin r) | _ \<Rightarrow> JNull)"
| "encode (JStr t) = JStr t"
| "encode (JOid h) = JStr h"
| "encode (JArr vs) = JArr (map (\<lambda>v. if v = JUndefined then JNull else v) (map encode vs))"
| "encode (JObj ms) =
     JObj (filter (\<lambda>m. snd m \<noteq> JUndefined) (map (map_prod (\<lambda>k. k) encode) ms))"

text \<open>
  The driver is created without \<open>ignoreUndefined\<close> (index.js, lines 47 to 53), so it
  writes a field whose value is undefined as \<open>null\<close>. \<open>bson v\<close> is the value the store
  keeps for the value \<open>v\<close> of a \<open>$set\<close>.
\<close>

definition bson :: "jsval \<Rightarrow> jsval" where
  "bson v = (if v = JUndefined then JNull else v)"

section \<open>The libraries and services around the handlers\<close>

text \<open>
  What index.js imports is not part of it: the ObjectId constructor, the text-to-number
  conversions of the language, jsonwebtoken, the Stripe client and the MongoDB server.
  Their behaviour enters the model as the fields of an environment:
  \<^item> \<open>ObjectId\<close>: the constructor applied to a route parameter; \<open>None\<close> when it throws
    on a malformed id, otherwise the id in its canonical form;
  \<^item> \<open>text_to_number\<close>: ToNumber on strings, arrays and objects;
    \<open>parseFloat_text\<close>, \<open>parseInt_text\<close>: the two parsers on arguments whose text may
    hold digits; each is \<open>Inl\<close> when the conversion throws, as it does on an object
    that has no callable \<open>toString\<close> or \<open>valueOf\<close>;
  \<^item> \<open>jwt_sign\<close>, \<open>jwt_verify\<close>: signing a payload with the e-mail (under the secret key,
    at the time of the request) and verifying a token; \<open>Inl\<close> when verify throws;
  \<^item> \<open>stripe_create\<close>, \<open>stripe_retrieve\<close>: the payment gateway; \<open>Inl\<close> when the call
    rejects;
  \<^item> \<open>email_matches\<close>: the store's equality match of the filter \<open>{email: v}\<close> against a
    document; \<open>new_id\<close>: the identifier the store generates for the n-th insert;
  \<^item> \<open>store_up\<close>: whether the store answers during the request; when it does not, every
    collection call rejects.
\<close>

datatype exn = BSONError | TypeError | JwtError | StripeError | StoreError

record create_params =
  amount :: jsnum
  currency :: string
  payment_method_types :: "string list"

record payment_intent =
  client_secret :: jsval
  pi_status :: jsval

record env =
  ObjectId :: "string \<Rightarrow> string option"
  text_to_number :: "jsval \<Rightarrow> exn + jsnum"
  parseFloat_text :: "jsval \<Rightarrow> exn + jsnum"
  parseInt_text :: "jsval \<Rightarrow> exn + jsnum"
  jwt_sign :: "jsval \<Rightarrow> string"
  jwt_verify :: "jsval \<Rightarrow> exn + jsval"
  stripe_create :: "create_params \<Rightarrow> exn + payment_intent"
  stripe_retrieve :: "jsval \<Rightarrow> exn + payment_intent"
  email_matches :: "jsval \<Rightarrow> doc \<Rightarrow> bool"
  new_id :: "nat \<Rightarrow> string"
  store_up :: bool

text \<open>ToNumber, applied by \<open>-\<close>, \<open>*\<close> and \<open><\<close> to an operand that is not a Number.\<close>

fun ToNumber :: "env \<Rightarrow> jsval \<Rightarrow> exn + jsnum" where
  "ToNumber e JUndefined = Inr NaN"
| "ToNumber e JNull = Inr (Fin 0)"
| "ToNumber e (JBool b) = Inr (Fin (if b then 1 else 0))"
| "ToNumber e (JNum n) = Inr n"
| "ToNumber e v = text_to_number e v"

text \<open>\<open>parseFloat\<close> and \<open>parseInt\<close> read the text of their argument; the texts
  \<open>undefined\<close>, \<open>null\<close>, \<open>true\<close> and \<open>false\<close> start with no digit.\<close>

fun parseFloat :: "env \<Rightarrow> jsval \<Rightarrow> exn + jsnum" where
  "parseFloat e JUndefined = Inr NaN"
| "parseFloat e JNull = Inr NaN"
| "parseFloat e (JBool b) = Inr NaN"
| "parseFloat e v = parseFloat_text e v"

fun parseInt :: "env \<Rightarrow> jsval \<Rightarrow> exn + jsnum" where
  "parseInt e JUndefined = Inr NaN"
| "parseInt e JNull = Inr NaN"
| "parseInt e (JBool b) = Inr NaN"
| "parseInt e v = parseInt_text e v"

section \<open>State: the two collections and the gateway's call log\<close>

text \<open>
  A product document holds what the handlers write: the five fields of POST /products
  and PATCH /products/:id (price and stock always through \<open>parseFloat\<close> and
  \<open>parseInt\<close>, hence Numbers), and \<open>status\<close>, which only the payment confirmation sets.
  The products collection is keyed by \<open>_id\<close>. User documents are the request bodies as
  they came, in insertion order.
\<close>

record product =
  p_name :: jsval
  p_description :: jsval
  p_price :: jsnum
  p_imageURL :: jsval
  p_stock :: jsnum
  p_status :: "string option"

datatype gateway_call = Create create_params | Retrieve jsval

record state =
  users :: "doc list"
  products :: "string \<rightharpoonup> product"
  gateway_log :: "gateway_call list"

record update_result =
  matchedCount :: nat
  modifiedCount :: nat

text \<open>
  The collection calls. \<open>updateOne\<close> with \<open>$set\<close> follows the driver's contract:
  \<open>matchedCount\<close> counts the documents the filter selects, \<open>modifiedCount\<close> those whose
  content the update changed, so setting fields to the values they already hold
  modifies nothing.
\<close>

definition findOne_product :: "env \<Rightarrow> state \<Rightarrow> string \<Rightarrow> exn + product option" where
  "findOne_product e s oid = (if store_up e then Inr (products s oid) else Inl StoreError)"

definition updateOne_product ::
  "env \<Rightarrow> state \<Rightarrow> string \<Rightarrow> (product \<Rightarrow> product) \<Rightarrow> state \<times> (exn + update_result)" where
  "updateOne_product e s oid set_fields =
     (if \<not> store_up e then (s, Inl StoreError)
      else case products s oid of
             None \<Rightarrow> (s, Inr \<lparr>matchedCount = 0, modifiedCount = 0\<rparr>)
           | Some p \<Rightarrow>
               (s\<lparr>products := (products s)(oid \<mapsto> set_fields p)\<rparr>,
                Inr \<lparr>matchedCount = 1,
                     modifiedCount = (if set_fields p = p then 0 else 1)\<rparr>))"

section \<open>Requests and responses\<close>

text \<open>A response is the status code with what the client reads: the JSON value of
  \<open>res.json\<close>, or a text.\<close>

record request =
  param :: string
  body :: doc
  authorization :: "string option"

datatype payload = Json jsval | Text string

datatype response = Response nat payload

datatype outcome = Sent response | Uncaught exn

definition json :: "nat \<Rightarrow> jsval \<Rightarrow> response" where
  "json code v = Response code (Json (encode v))"

definition message :: "string \<Rightarrow> jsval" where
  "message m = JObj [(''message'', JStr m)]"

text \<open>A stored product as the object \<open>findOne\<close> returns; \<open>null\<close> when there is none.\<close>

definition product_object :: "string \<Rightarrow> product \<Rightarrow> jsval" where
  "product_object oid p =
     JObj ([(''_id'', JOid oid), (''name'', p_name p), (''description'', p_description p),
            (''price'', JNum (p_price p)), (''imageURL'', p_imageURL p),
            (''stock'', JNum (p_stock p))]
           @ (case p_status p of None \<Rightarrow> [] | Some st \<Rightarrow> [(''status'', JStr st)]))"

definition found_object :: "string \<Rightarrow> product option \<Rightarrow> jsval" where
  "found_object oid r = (case r of None \<Rightarrow> JNull | Some p \<Rightarrow> product_object oid p)"

section \<open>POST /products/:id/confirm-payment\<close>

text \<open>The body of the handler's \<open>try\<close> block: \<open>Inl\<close> is an exception on its way to the
  \<open>catch\<close>, \<open>Inr\<close> the response sent.\<close>

definition confirm_payment_try :: "env \<Rightarrow> state \<Rightarrow> request \<Rightarrow> state \<times> (exn + response)" where
  "confirm_payment_try e s req =
     (let productId = param req;
          paymentIntentId = field (body req) ''paymentIntentId'';
          quantity = field (body req) ''quantity''
      in case ObjectId e productId of
           None \<Rightarrow> (s, Inl BSONError)
         | Some oid \<Rightarrow>
            (case findOne_product e s oid of
               Inl err \<Rightarrow> (s, Inl err)
             | Inr None \<Rightarrow> (s, Inr (json 404 (message ''Product not found'')))
             | Inr (Some product) \<Rightarrow>
                (let s1 = s\<lparr>gateway_log := gateway_log s @ [Retrieve paymentIntentId]\<rparr>
                 in case stripe_retrieve e paymentIntentId of
                      Inl err \<Rightarrow> (s1, Inl err)
                    | Inr paymentIntent \<Rightarrow>
                       (if pi_status paymentIntent = JStr ''succeeded'' then
                          (case ToNumber e quantity of
                             Inl err \<Rightarrow> (s1, Inl err)
                           | Inr n \<Rightarrow>
                              (let updatedStock = js_sub (p_stock product) n;
                                   status = (if js_seq updatedStock (Fin 0)
                                             then ''Out of Stock'' else ''In Stock'')
                               in case updateOne_product e s1 oid
                                         (\<lambda>p. p\<lparr>p_stock := updatedStock,
                                                p_status := Some status\<rparr>) of
                                    (s2, Inl err) \<Rightarrow> (s2, Inl err)
                                  | (s2, Inr result) \<Rightarrow>
                                     (if modifiedCount result = 0
                                      then (s2, Inr (json 400
                                              (message ''Failed to update product stock'')))
                                      else (case findOne_product e s2 oid of
                                              Inl err \<Rightarrow> (s2, Inl err)
                                            | Inr updatedProduct \<Rightarrow>
                                                (s2, Inr (json 200
                                                   (JObj [(''message'', JStr ''Payment succeeded''),
                                                          (''product'',
                                                           found_object oid updatedProduct)])))))))
                        else (s1, Inr (json 400 (message ''Payment not successful'')))))))"

definition confirm_payment :: "env \<Rightarrow> state \<Rightarrow> request \<Rightarrow> state \<times> outcome" where
  "confirm_payment e s req =
     (case confirm_payment_try e s req of
        (s', Inl err) \<Rightarrow> (s', Sent (json 500 (JObj [(''error'', JStr ''Failed to confirm payment'')])))
      | (s', Inr r) \<Rightarrow> (s', Sent r))"

section \<open>POST /products/:id/purchase\<close>

definition purchase_try :: "env \<Rightarrow> state \<Rightarrow> request \<Rightarrow> state \<times> (exn + response)" where
  "purchase_try e s req =
     (let productId = param req;
          quantity = field (body req) ''quantity''
      in case ObjectId e productId of
           None \<Rightarrow> (s, Inl BSONError)
         | Some oid \<Rightarrow>
            (case findOne_product e s oid of
               Inl err \<Rightarrow> (s, Inl err)
             | Inr None \<Rightarrow> (s, Inr (json 404 (message ''Product not found'')))
             | Inr (Some product) \<Rightarrow>
                (case ToNumber e quantity of
                   Inl err \<Rightarrow> (s, Inl err)
                 | Inr n \<Rightarrow>
                    (if js_lt (p_stock product) n
                     then (s, Inr (json 400 (message ''Not enough stock available'')))
                     else
                       (let cents = js_mul (js_mul (p_price product) n) (Fin 100);
                            intent_params = \<lparr>amount = cents, currency = ''usd'',
                                             payment_method_types = [''card'']\<rparr>;
                            s1 = s\<lparr>gateway_log := gateway_log s @ [Create intent_params]\<rparr>
                        in case stripe_create e intent_params of
                             Inl err \<Rightarrow> (s1, Inl err)
                           | Inr paymentIntent \<Rightarrow>
                               (s1, Inr (json 200
                                  (JObj [(''clientSecret'', client_secret paymentIntent)]))))))))"

definition purchase :: "env \<Rightarrow> state \<Rightarrow> request \<Rightarrow> state \<times> outcome" where
  "purchase e s req =
     (case purchase_try e s req of
        (s', Inl err) \<Rightarrow> (s', Sent (json 500 (message ''Failed to create payment intent'')))
      | (s', Inr r) \<Rightarrow> (s', Sent r))"

section \<open>GET /products/:id\<close>

definition get_product_try :: "env \<Rightarrow> state \<Rightarrow> request \<Rightarrow> exn + response" where
  "get_product_try e s req =
     (case ObjectId e (param req) of
        None \<Rightarrow> Inl BSONError
      | Some oid \<Rightarrow>
         (case findOne_product e s oid of
            Inl err \<Rightarrow> Inl err
          | Inr None \<Rightarrow> Inr (json 404 (message ''Product not found''))
          | Inr (Some product) \<Rightarrow> Inr (json 200 (product_object oid product))))"

definition get_product :: "env \<Rightarrow> state \<Rightarrow> request \<Rightarrow> state \<times> outcome" where
  "get_product e s req =
     (case get_product_try e s req of
        Inl err \<Rightarrow> (s, Sent (json 500 (message ''Failed to fetch product'')))
      | Inr r \<Rightarrow> (s, Sent r))"

section \<open>PATCH /products/:id behind verifyToken\<close>

text \<open>\<open>h.split(" ")\<close>: the pieces of \<open>h\<close> between single spaces.\<close>

fun split_space :: "string \<Rightarrow> string list" where
  "split_space [] = [[]]"
| "split_space (c # cs) =
     (if c = CHR '' '' then [] # split_space cs
      else (case split_space cs of [] \<Rightarrow> [[c]] | w # ws \<Rightarrow> (c # w) # ws))"

definition second_piece :: "string list \<Rightarrow> jsval" where
  "second_piece ws = (case ws of _ # t # _ \<Rightarrow> JStr t | _ \<Rightarrow> JUndefined)"

text \<open>\<open>verify?.email\<close> on what \<open>jwt.verify\<close> returned.\<close>

definition email_of :: "jsval \<Rightarrow> jsval" where
  "email_of v = (case v of JObj d \<Rightarrow> field d ''email'' | _ \<Rightarrow> JUndefined)"

definition unauthorized :: response where
  "unauthorized = Response 401 (Text ''You are not authorized'')"

text \<open>The middleware: \<open>Inr user\<close> stands for \<open>next()\<close> with \<open>req.user = user\<close>. A missing
  header makes \<open>.split\<close> throw, which the \<open>catch\<close> answers like a rejected token.\<close>

definition verifyToken :: "env \<Rightarrow> request \<Rightarrow> response + jsval" where
  "verifyToken e req =
     (case authorization req of
        None \<Rightarrow> Inl unauthorized
      | Some h \<Rightarrow>
         (let token = second_piece (split_space h)
          in case jwt_verify e token of
               Inl err \<Rightarrow> Inl unauthorized
             | Inr verify \<Rightarrow>
                 (if \<not> truthy (email_of verify) then Inl unauthorized
                  else Inr (email_of verify))))"

text \<open>The handler builds \<open>updatedProduct\<close> before its \<open>try\<close>, so a conversion that throws
  there leaves the handler. The store keeps the \<open>bson\<close> of each value set.\<close>

definition patch_product :: "env \<Rightarrow> state \<Rightarrow> request \<Rightarrow> state \<times> outcome" where
  "patch_product e s req =
     (let name = field (body req) ''name'';
          description = field (body req) ''description'';
          price = field (body req) ''price'';
          imageURL = field (body req) ''imageURL'';
          stock = field (body req) ''stock''
      in case parseFloat e price of
           Inl err \<Rightarrow> (s, Uncaught err)
         | Inr parsed_price \<Rightarrow>
            (case parseInt e stock of
               Inl err \<Rightarrow> (s, Uncaught err)
             | Inr parsed_stock \<Rightarrow>
                (let updatedProduct =
                       [(''name'', name), (''description'', description),
                        (''price'', JNum parsed_price), (''imageURL'', imageURL),
                        (''stock'', JNum parsed_stock)]
                 in case (case ObjectId e (param req) of
                            None \<Rightarrow> (s, Inl BSONError)
                          | Some oid \<Rightarrow>
                             (case updateOne_product e s oid
                                     (\<lambda>p. p\<lparr>p_name := bson name,
                                            p_description := bson description,
                                            p_price := parsed_price,
                                            p_imageURL := bson imageURL,
                                            p_stock := parsed_stock\<rparr>) of
                                (s', Inl err) \<Rightarrow> (s', Inl err)
                              | (s', Inr result) \<Rightarrow>
                                 (if modifiedCount result = 0
                                  then (s', Inr (json 404 (message ''Product not found'')))
                                  else (s', Inr (json 200 (JObj updatedProduct)))))) of
                      (s', Inl err) \<Rightarrow> (s', Sent (json 400 (message ''Failed to update product'')))
                    | (s', Inr r) \<Rightarrow> (s', Sent r))))"

definition patch_product_route :: "env \<Rightarrow> state \<Rightarrow> request \<Rightarrow> state \<times> outcome" where
  "patch_product_route e s req =
     (case verifyToken e req of
        Inl r \<Rightarrow> (s, Sent r)
      | Inr user \<Rightarrow> patch_product e s req)"

section \<open>The user routes\<close>

text \<open>These three handlers have no \<open>try\<close>: what a call throws leaves the handler.\<close>

definition createToken :: "env \<Rightarrow> doc \<Rightarrow> string" where
  "createToken e user = jwt_sign e (field user ''email'')"

definition findOne_user :: "env \<Rightarrow> state \<Rightarrow> (doc \<Rightarrow> bool) \<Rightarrow> exn + doc option" where
  "findOne_user e s matches = (if store_up e then Inr (find matches (users s)) else Inl StoreError)"

text \<open>\<open>insertOne\<close> keeps an \<open>_id\<close> the document brings, unless a stored document has it
  already, and generates one otherwise.\<close>

definition insertOne_user :: "env \<Rightarrow> state \<Rightarrow> doc \<Rightarrow> state \<times> (exn + unit)" where
  "insertOne_user e s d =
     (if \<not> store_up e then (s, Inl StoreError)
      else case map_of d ''_id'' of
             None \<Rightarrow>
               (s\<lparr>users := users s @ [(''_id'', JOid (new_id e (length (users s)))) # d]\<rparr>, Inr ())
           | Some i \<Rightarrow>
               (if list_ex (\<lambda>u. map_of u ''_id'' = Some i) (users s) then (s, Inl StoreError)
                else (s\<lparr>users := users s @ [d]\<rparr>, Inr ())))"

text \<open>\<open>res.send(v)\<close>: an object goes out as JSON, \<open>null\<close> as an empty body.\<close>

definition send :: "jsval \<Rightarrow> response" where
  "send v = Response 200 (case v of JNull \<Rightarrow> Text [] | _ \<Rightarrow> Json (encode v))"

definition post_user :: "env \<Rightarrow> state \<Rightarrow> request \<Rightarrow> state \<times> outcome" where
  "post_user e s req =
     (let user = body req;
          token = createToken e user
      in case findOne_user e s (email_matches e (field user ''email'')) of
           Inl err \<Rightarrow> (s, Uncaught err)
         | Inr (Some isUserExist) \<Rightarrow>
             (s, Sent (send (JObj [(''status'', JStr ''success''),
                                   (''message'', JStr ''Login success''),
                                   (''token'', JStr token)])))
         | Inr None \<Rightarrow>
            (case insertOne_user e s user of
               (s', Inl err) \<Rightarrow> (s', Uncaught err)
             | (s', Inr _) \<Rightarrow>
                 (s', Sent (send (JObj [(''status'', JStr ''success''),
                                        (''message'', JStr ''Registration successful''),
                                        (''token'', JStr token)])))))"

definition user_object :: "doc option \<Rightarrow> jsval" where
  "user_object r = (case r of None \<Rightarrow> JNull | Some d \<Rightarrow> JObj d)"

definition get_user_by_id :: "env \<Rightarrow> state \<Rightarrow> request \<Rightarrow> state \<times> outcome" where
  "get_user_by_id e s req =
     (let id = param req
      in case ObjectId e id of
           None \<Rightarrow> (s, Uncaught BSONError)
         | Some oid \<Rightarrow>
            (case findOne_user e s (\<lambda>d. map_of d ''_id'' = Some (JOid oid)) of
               Inl err \<Rightarrow> (s, Uncaught err)
             | Inr result \<Rightarrow> (s, Sent (send (user_object result)))))"

definition get_user_by_email :: "env \<Rightarrow> state \<Rightarrow> request \<Rightarrow> state \<times> outcome" where
  "get_user_by_email e s req =
     (let email = param req
      in case findOne_user e s (email_matches e (JStr email)) of
           Inl err \<Rightarrow> (s, Uncaught err)
         | Inr result \<Rightarrow> (s, Sent (send (user_object result))))"

section \<open>The spec's reading of re-registration\<close>

text \<open>
  The specification says that registering an e-mail a second time "returns the same
  stored user record". This predicate follows those words (it is not taken from
  index.js): the response is a JSON body that is the record \<open>u\<close> as JSON, or an object
  with the record as one of its members.
\<close>

definition spec_returns_record :: "outcome \<Rightarrow> doc \<Rightarrow> bool" where
  "spec_returns_record out u =
     (case out of
        Sent (Response code (Json (JObj members))) \<Rightarrow>
          JObj members = encode (JObj u) \<or> encode (JObj u) \<in> set (map snd members)
      | _ \<Rightarrow> False)"

section \<open>A concrete shop\<close>

text \<open>
  An environment and a store on which the theorems below are instantiated: ids are 24
  lower-case hexadecimal digits; the conversions return a Number as it is, throw on an
  object with a \<open>toString\<close> member of its own (which JSON cannot make callable) and read
  no text (the requests below carry whole numbers only); the gateway accepts whole
  amounts from 50 cents and knows one paid and one open intent; the token \<open>good\<close>
  verifies; the store holds four products and no user. The pen costs 19.99, that is the
  binary64 value next to it.
\<close>

definition demo_env :: env where
  "demo_env =
     \<lparr>ObjectId = (\<lambda>t. if length t = 24 \<and> set t \<subseteq> set ''0123456789abcdef''
                       then Some t else None),
      text_to_number =
        (\<lambda>v. case v of
                JObj d \<Rightarrow> if map_of d ''toString'' = None then Inr NaN else Inl TypeError
              | _ \<Rightarrow> Inr NaN),
      parseFloat_text =
        (\<lambda>v. case v of
                JNum n \<Rightarrow> Inr n
              | JObj d \<Rightarrow> if map_of d ''toString'' = None then Inr NaN else Inl TypeError
              | _ \<Rightarrow> Inr NaN),
      parseInt_text =
        (\<lambda>v. case v of
                JNum n \<Rightarrow> Inr n
              | JObj d \<Rightarrow> if map_of d ''toString'' = None then Inr NaN else Inl TypeError
              | _ \<Rightarrow> Inr NaN),
      jwt_sign = (\<lambda>v. ''signed''),
      jwt_verify = (\<lambda>t. if t = JStr ''good''
                         then Inr (JObj [(''email'', JStr ''ann@example.com'')])
                         else Inl JwtError),
      stripe_create = (\<lambda>c. case amount c of
                               Fin a \<Rightarrow>
                                 if whole a \<and> 50 \<le> a
                                 then Inr \<lparr>client_secret = JStr ''pi_1_secret_x'',
                                           pi_status = JStr ''requires_payment_method''\<rparr>
                                 else Inl StripeError
                             | _ \<Rightarrow> Inl StripeError),
      stripe_retrieve = (\<lambda>i. if i = JStr ''pi_paid''
                              then Inr \<lparr>client_secret = JStr ''pi_1_secret_x'',
                                        pi_status = JStr ''succeeded''\<rparr>
                              else if i = JStr ''pi_open''
                              then Inr \<lparr>client_secret = JStr ''pi_2_secret_y'',
                                        pi_status = JStr ''requires_payment_method''\<rparr>
                              else Inl StripeError),
      email_matches = (\<lambda>v d. map_of d ''email'' = Some v),
      new_id = (\<lambda>n. ''00000000000000000000000'' @ [''0123456789abcdef'' ! (n mod 16)]),
      store_up = True\<rparr>"

definition keyboard_id :: string where
  "keyboard_id = ''aaaaaaaaaaaaaaaaaaaaaaaa''"

definition lamp_id :: string where
  "lamp_id = ''bbbbbbbbbbbbbbbbbbbbbbbb''"

definition mug_id :: string where
  "mug_id = ''cccccccccccccccccccccccc''"

definition absent_id :: string where
  "absent_id = ''dddddddddddddddddddddddd''"

definition pen_id :: string where
  "pen_id = ''eeeeeeeeeeeeeeeeeeeeeeee''"

definition keyboard :: product where
  "keyboard = \<lparr>p_name = JStr ''Keyboard'', p_description = JStr ''Mechanical'',
               p_price = Fin 10, p_imageURL = JStr ''k.png'', p_stock = Fin 5,
               p_status = Some ''In Stock''\<rparr>"

definition lamp :: product where
  "lamp = \<lparr>p_name = JStr ''Lamp'', p_description = JStr ''Desk lamp'', p_price = Fin 25,
           p_imageURL = JStr ''l.png'', p_stock = Fin 1, p_status = None\<rparr>"

definition mug :: product where
  "mug = \<lparr>p_name = JStr ''Mug'', p_description = JStr ''Blue'', p_price = Fin 4,
          p_imageURL = JStr ''m.png'', p_stock = Fin 0, p_status = Some ''Out of Stock''\<rparr>"

definition pen :: product where
  "pen = \<lparr>p_name = JStr ''Pen'', p_description = JStr ''Black'',
          p_price = Fin (5626684784446013 / 281474976710656),
          p_imageURL = JStr ''p.png'', p_stock = Fin 3, p_status = None\<rparr>"

definition demo_state :: state where
  "demo_state =
     \<lparr>users = [],
      products = [keyboard_id \<mapsto> keyboard, lamp_id \<mapsto> lamp, mug_id \<mapsto> mug, pen_id \<mapsto> pen],
      gateway_log = []\<rparr>"

definition confirm_request :: "string \<Rightarrow> string \<Rightarrow> rat \<Rightarrow> request" where
  "confirm_request pid intent n =
     \<lparr>param = pid, body = [(''paymentIntentId'', JStr intent), (''quantity'', JNum (Fin n))],
      authorization = None\<rparr>"

definition purchase_request :: "string \<Rightarrow> rat \<Rightarrow> request" where
  "purchase_request pid n = \<lparr>param = pid, body = [(''quantity'', JNum (Fin n))], authorization = None\<rparr>"

definition register_ann :: request where
  "register_ann =
     \<lparr>param = [], body = [(''email'', JStr ''ann@example.com''), (''name'', JStr ''Ann'')],
      authorization = None\<rparr>"

definition ann_record :: doc where
  "ann_record = [(''_id'', JOid ''000000000000000000000000''),
                 (''email'', JStr ''ann@example.com''), (''name'', JStr ''Ann'')]"

definition patch_request :: "string \<Rightarrow> doc \<Rightarrow> request" where
  "patch_request pid b = \<lparr>param = pid, body = b, authorization = Some ''Bearer good''\<rparr>"

definition restock_mug :: request where
  "restock_mug = patch_request mug_id [(''stock'', JNum (Fin 7))]"

definition same_keyboard :: request where
  "same_keyboard =
     patch_request keyboard_id
       [(''name'', JStr ''Keyboard''), (''description'', JStr ''Mechanical''),
        (''price'', JNum (Fin 10)), (''imageURL'', JStr ''k.png''), (''stock'', JNum (Fin 5))]"

section \<open>Auxiliary facts\<close>

subsection \<open>Rounding is exact on safe integers\<close>

lemma pow2_powi: "pow2 k = 2 powi k"
  by (simp add: pow2_def power_int_def inverse_eq_divide power_one_over)

lemma exponent2_lower:
  assumes "x \<noteq> 0"
  shows "pow2 (exponent2 x) \<le> \<bar>x\<bar>"
proof -
  obtain p q where pq: "quotient_of \<bar>x\<bar> = (p, q)"
    by (meson surj_pair)
  have q: "0 < q"
    using pq by (rule quotient_of_denom_pos)
  have x: "\<bar>x\<bar> = of_int p / of_int q"
    using pq by (rule quotient_of_div)
  have "0 < \<bar>x\<bar>"
    using assms by simp
  then have p: "0 < p"
    using q x by (simp add: zero_less_divide_iff)
  have bp: "2 ^ nat (bitlen p - 1) \<le> p" and bq: "q < 2 ^ nat (bitlen q)"
    using bitlen_bounds [OF p] bitlen_bounds [OF q] by simp_all
  have p1: "1 \<le> bitlen p"
    using p bitlen_eq_zero_iff [of p] bitlen_nonneg [of p] by linarith
  have "(2::rat) powi (bitlen p - bitlen q - 1) = 2 powi (bitlen p - 1) / 2 powi (bitlen q)"
    using power_int_diff [of "2::rat" "bitlen p - 1" "bitlen q"] by (simp add: algebra_simps)
  also have "\<dots> = 2 ^ nat (bitlen p - 1) / 2 ^ nat (bitlen q)"
    using p1 bitlen_nonneg [of q] by (simp add: power_int_def)
  also have "\<dots> \<le> of_int p / of_int q"
  proof -
    have "(of_int (2 ^ nat (bitlen p - 1)) :: rat) \<le> of_int p"
      using bp by (simp only: of_int_le_iff)
    then have a: "(2::rat) ^ nat (bitlen p - 1) \<le> of_int p" by simp
    have "(of_int q :: rat) \<le> of_int (2 ^ nat (bitlen q))"
      using bq by (simp only: of_int_le_iff)
    then have b: "(of_int q :: rat) \<le> 2 ^ nat (bitlen q)" by simp
    show ?thesis
      using a b p q by (intro frac_le) simp_all
  qed
  finally have low: "pow2 (bitlen p - bitlen q - 1) \<le> \<bar>x\<bar>"
    by (simp add: pow2_powi x)
  show ?thesis
    using low by (simp add: exponent2_def pq Let_def)
qed

lemma round_half_even_of_int: "round_half_even (of_int n) = n"
  by (simp add: round_half_even_def)

lemma to_double_safe_integer:
  assumes "safe_integer x"
  shows "to_double x = Fin x"
proof (cases "x = 0")
  case True
  then show ?thesis by (simp add: to_double_def)
next
  case False
  obtain n :: int where n: "x = of_int n"
    using assms by (auto simp: safe_integer_def whole_def intro: that [of "\<lfloor>x\<rfloor>"])
  have bound: "\<bar>x\<bar> < 2 powi 53"
    using assms by (simp add: safe_integer_def)
  have "(2::rat) powi (exponent2 x) < 2 powi 53"
    using exponent2_lower [OF False] bound by (simp add: pow2_powi)
  then have "exponent2 x < 53"
    by (rule power_int_le_imp_less_exp [rotated]) simp_all
  then have e: "max (exponent2 x) (- 1022) - 52 \<le> 0"
    by simp
  define k where "k = nat (52 - max (exponent2 x) (- 1022))"
  have ulp: "pow2 (max (exponent2 x) (- 1022) - 52) = 1 / 2 ^ k"
    using e by (auto simp: pow2_def k_def)
  have scaled: "x / (1 / 2 ^ k) = of_int (n * 2 ^ k)"
    by (simp add: n)
  have r: "of_int (round_half_even (x / (1 / 2 ^ k))) * (1 / 2 ^ k) = x"
    unfolding scaled round_half_even_of_int by (simp add: n)
  have small: "\<not> pow2 1024 \<le> \<bar>x\<bar>"
  proof -
    have "(2::rat) powi 53 \<le> 2 powi 1024"
      by (rule power_int_increasing) simp_all
    then show ?thesis using bound by (simp add: pow2_powi)
  qed
  show ?thesis
    unfolding to_double_def Let_def ulp r using False small by simp
qed

lemma js_sub_safe_integer: "safe_integer (a - b) \<Longrightarrow> js_sub (Fin a) (Fin b) = Fin (a - b)"
  by (simp add: to_double_safe_integer)

lemma js_mul_safe_integer: "safe_integer (a * b) \<Longrightarrow> js_mul (Fin a) (Fin b) = Fin (a * b)"
  by (simp add: to_double_safe_integer)

subsection \<open>Rounding off the whole numbers\<close>

lemma exponent2_upper:
  assumes "x \<noteq> 0"
  shows "\<bar>x\<bar> < pow2 (exponent2 x + 1)"
proof -
  obtain p q where pq: "quotient_of \<bar>x\<bar> = (p, q)"
    by (meson surj_pair)
  have q: "0 < q"
    using pq by (rule quotient_of_denom_pos)
  have x: "\<bar>x\<bar> = of_int p / of_int q"
    using pq by (rule quotient_of_div)
  have "0 < \<bar>x\<bar>"
    using assms by simp
  then have p: "0 < p"
    using q x by (simp add: zero_less_divide_iff)
  have bp: "p < 2 ^ nat (bitlen p)" and bq: "2 ^ nat (bitlen q - 1) \<le> q"
    using bitlen_bounds [OF p] bitlen_bounds [OF q] by simp_all
  have q1: "1 \<le> bitlen q"
    using q bitlen_eq_zero_iff [of q] bitlen_nonneg [of q] by linarith
  have "of_int p / of_int q < (2::rat) ^ nat (bitlen p) / 2 ^ nat (bitlen q - 1)"
  proof -
    have "(of_int p :: rat) < of_int (2 ^ nat (bitlen p))"
      using bp by (simp only: of_int_less_iff)
    then have a: "(of_int p :: rat) < 2 ^ nat (bitlen p)" by simp
    have "(of_int (2 ^ nat (bitlen q - 1)) :: rat) \<le> of_int q"
      using bq by (simp only: of_int_le_iff)
    then have b: "(2::rat) ^ nat (bitlen q - 1) \<le> of_int q" by simp
    show ?thesis
      using a b p q by (intro frac_less) simp_all
  qed
  also have "\<dots> = 2 powi (bitlen p) / 2 powi (bitlen q - 1)"
    using q1 bitlen_nonneg [of p] by (simp add: power_int_def)
  also have "\<dots> = 2 powi (bitlen p - bitlen q + 1)"
    using power_int_diff [of "2::rat" "bitlen p" "bitlen q - 1"] by (simp add: algebra_simps)
  finally have up: "\<bar>x\<bar> < pow2 (bitlen p - bitlen q + 1)"
    by (simp add: pow2_powi x)
  show ?thesis
    using up by (auto simp add: exponent2_def pq Let_def not_le)
qed

lemma exponent2_unique:
  assumes "pow2 e \<le> \<bar>x\<bar>" and "\<bar>x\<bar> < pow2 (e + 1)"
  shows "exponent2 x = e"
proof -
  have "0 < pow2 e"
    by (simp add: pow2_powi)
  then have nz: "x \<noteq> 0"
    using assms(1) by auto
  have "(2::rat) powi (exponent2 x) < 2 powi (e + 1)"
    using exponent2_lower [OF nz] assms(2) by (simp add: pow2_powi)
  then have a: "exponent2 x < e + 1"
    using power_int_increasing [of "e + 1" "exponent2 x" "2::rat"] by (cases "exponent2 x < e + 1") auto
  have "(2::rat) powi e < 2 powi (exponent2 x + 1)"
    using exponent2_upper [OF nz] assms(1) by (simp add: pow2_powi)
  then have b: "e < exponent2 x + 1"
    using power_int_increasing [of "exponent2 x + 1" e "2::rat"] by (cases "e < exponent2 x + 1") auto
  show ?thesis
    using a b by simp
qed

lemma to_double_eval:
  assumes "pow2 e \<le> \<bar>x\<bar>" and "\<bar>x\<bar> < pow2 (e + 1)" and "- 1022 \<le> e"
    and "of_int (round_half_even (x / pow2 (e - 52))) * pow2 (e - 52) = r"
    and "\<bar>r\<bar> < pow2 1024"
  shows "to_double x = Fin r"
proof -
  have "0 < pow2 e"
    by (simp add: pow2_powi)
  then have nz: "x \<noteq> 0"
    using assms(1) by auto
  have e: "max (exponent2 x) (- 1022) = e"
    using exponent2_unique [OF assms(1,2)] assms(3) by simp
  show ?thesis
    unfolding to_double_def Let_def e assms(4) using nz assms(5) by simp
qed

lemma floor_rat_numeral:
  "\<lfloor>(numeral a :: rat) / numeral b\<rfloor> = numeral a div numeral b"
  "\<lfloor>- (numeral a :: rat) / numeral b\<rfloor> = - numeral a div numeral b"
  "\<lfloor>- ((numeral a :: rat) / numeral b)\<rfloor> = - numeral a div numeral b"
  using floor_divide_of_int_eq [of "numeral a" "numeral b", where ?'a = rat]
    floor_divide_of_int_eq [of "- numeral a" "numeral b", where ?'a = rat]
  by simp_all

lemmas to_double_arith = pow2_def round_half_even_def Let_def floor_rat_numeral

text \<open>The operators round as binary64 does: \<open>5 - 0.1\<close>, \<open>-5 - 1e-17\<close> and
  \<open>19.99 * 1 * 100\<close>, each operand being the binary64 value of its literal.\<close>

lemma binary64_examples:
  "js_sub (Fin 5) (Fin (3602879701896397 / 36028797018963968))
     = Fin (2758454771764429 / 562949953421312)"
  "js_sub (Fin (- 5)) (Fin (6490371073168535 / 649037107316853453566312041152512)) = Fin (- 5)"
  "js_mul (js_mul (Fin (5626684784446013 / 281474976710656)) (Fin 1)) (Fin 100)
     = Fin (8791694975696895 / 4398046511104)"
proof -
  have a: "to_double (5 - 3602879701896397 / 36028797018963968)
      = Fin (2758454771764429 / 562949953421312)"
    by (rule to_double_eval [where e = 2]) (simp_all add: to_double_arith)
  have b: "to_double (- 5 - 6490371073168535 / 649037107316853453566312041152512) = Fin (- 5)"
    by (rule to_double_eval [where e = 2]) (simp_all add: to_double_arith)
  have c: "to_double (5626684784446013 / 281474976710656)
      = Fin (5626684784446013 / 281474976710656)"
    by (rule to_double_eval [where e = 4]) (simp_all add: to_double_arith)
  have d: "to_double (5626684784446013 / 281474976710656 * 100)
      = Fin (8791694975696895 / 4398046511104)"
    by (rule to_double_eval [where e = 10]) (simp_all add: to_double_arith)
  show "js_sub (Fin 5) (Fin (3602879701896397 / 36028797018963968))
      = Fin (2758454771764429 / 562949953421312)"
    using a by simp
  show "js_sub (Fin (- 5)) (Fin (6490371073168535 / 649037107316853453566312041152512))
      = Fin (- 5)"
    using b by simp
  show "js_mul (js_mul (Fin (5626684784446013 / 281474976710656)) (Fin 1)) (Fin 100)
      = Fin (8791694975696895 / 4398046511104)"
    using c d by simp
qed

lemma js_seq_zero: "js_seq u (Fin 0) = (u = Fin 0)"
  by (cases u) auto

subsection \<open>The shop\<close>

lemma demo_env_up: "store_up demo_env"
  by (simp add: demo_env_def)

lemma demo_ids:
  "ObjectId demo_env keyboard_id = Some keyboard_id"
  "ObjectId demo_env lamp_id = Some lamp_id"
  "ObjectId demo_env mug_id = Some mug_id"
  "ObjectId demo_env absent_id = Some absent_id"
  "ObjectId demo_env pen_id = Some pen_id"
  "ObjectId demo_env ''abc'' = None"
  by (simp_all add: demo_env_def keyboard_id_def lamp_id_def mug_id_def absent_id_def pen_id_def)

lemma demo_products:
  "products demo_state keyboard_id = Some keyboard"
  "products demo_state lamp_id = Some lamp"
  "products demo_state mug_id = Some mug"
  "products demo_state absent_id = None"
  "products demo_state pen_id = Some pen"
  by (simp_all add: demo_state_def keyboard_id_def lamp_id_def mug_id_def absent_id_def pen_id_def)

lemma demo_log: "gateway_log demo_state = []"
  by (simp add: demo_state_def)

lemma demo_intents:
  "stripe_retrieve demo_env (JStr ''pi_paid'') =
     Inr \<lparr>client_secret = JStr ''pi_1_secret_x'', pi_status = JStr ''succeeded''\<rparr>"
  "stripe_retrieve demo_env (JStr ''pi_open'') =
     Inr \<lparr>client_secret = JStr ''pi_2_secret_y'', pi_status = JStr ''requires_payment_method''\<rparr>"
  by (simp_all add: demo_env_def)

lemma demo_parsers:
  "parseFloat_text demo_env (JNum n) = Inr n"
  "parseInt_text demo_env (JNum n) = Inr n"
  "parseFloat_text demo_env (JObj [(''toString'', v)]) = Inl TypeError"
  by (simp_all add: demo_env_def)

lemma confirm_request_simps:
  "param (confirm_request pid intent n) = pid"
  "field (body (confirm_request pid intent n)) ''paymentIntentId'' = JStr intent"
  "field (body (confirm_request pid intent n)) ''quantity'' = JNum (Fin n)"
  by (simp_all add: confirm_request_def field_def)

lemma purchase_request_simps:
  "param (purchase_request pid n) = pid"
  "field (body (purchase_request pid n)) ''quantity'' = JNum (Fin n)"
  by (simp_all add: purchase_request_def field_def)

lemma patch_request_authorised:
  "verifyToken demo_env (patch_request pid b) = Inr (JStr ''ann@example.com'')"
  by (simp add: verifyToken_def patch_request_def second_piece_def email_of_def field_def
      demo_env_def Let_def)

text \<open>What the confirmation does once the product is found, the intent has succeeded
  and the quantity is a Number: one \<open>updateOne\<close>, then the answer according to its
  \<open>modifiedCount\<close>.\<close>

lemma confirm_succeeded_run:
  assumes "store_up e" and "ObjectId e (param req) = Some oid" and "products s oid = Some p"
    and "stripe_retrieve e (field (body req) ''paymentIntentId'') = Inr intent"
    and "pi_status intent = JStr ''succeeded''"
    and "ToNumber e (field (body req) ''quantity'') = Inr n"
  shows "confirm_payment e s req =
      (let u = js_sub (p_stock p) n;
           p' = p\<lparr>p_stock := u,
                  p_status := Some (if u = Fin 0 then ''Out of Stock'' else ''In Stock'')\<rparr>
       in (s\<lparr>products := (products s)(oid \<mapsto> p'),
             gateway_log := gateway_log s @ [Retrieve (field (body req) ''paymentIntentId'')]\<rparr>,
           Sent (if p' = p then json 400 (message ''Failed to update product stock'')
                 else json 200 (JObj [(''message'', JStr ''Payment succeeded''),
                                      (''product'', product_object oid p')]))))"
  using assms
  by (simp add: confirm_payment_def confirm_payment_try_def findOne_product_def
      updateOne_product_def found_object_def js_seq_zero Let_def)

section \<open>Payment confirmation\<close>

text \<open>
  C1. For an existing product and any quantity that is (or converts to) a Number, a
  confirmation whose payment intent has status \<open>succeeded\<close> persists
  \<open>stock - quantity\<close>, as JavaScript computes it, together with the status label in one
  update; the label is \<open>Out of Stock\<close> exactly when the new stock is 0 and \<open>In Stock\<close>
  otherwise; when the update modified the document the answer is 200 with the product
  as re-read from the store: its id, its five fields with the new stock, and the label.
  Whenever the difference of stock and quantity is a safe integer, the stock persisted
  is exactly that difference.
\<close>

theorem confirm_payment_decrements_stock:
  assumes "store_up e" and "ObjectId e (param req) = Some oid" and "products s oid = Some p"
    and "stripe_retrieve e (field (body req) ''paymentIntentId'') = Inr intent"
    and "pi_status intent = JStr ''succeeded''"
    and "ToNumber e (field (body req) ''quantity'') = Inr n"
    and "u = js_sub (p_stock p) n"
    and "label = (if u = Fin 0 then ''Out of Stock'' else ''In Stock'')"
    and "p' = p\<lparr>p_stock := u, p_status := Some label\<rparr>"
  shows "confirm_payment e s req =
      (s\<lparr>products := (products s)(oid \<mapsto> p'),
         gateway_log := gateway_log s @ [Retrieve (field (body req) ''paymentIntentId'')]\<rparr>,
       Sent (if p' = p then json 400 (message ''Failed to update product stock'')
             else json 200
               (JObj [(''message'', JStr ''Payment succeeded''),
                      (''product'',
                       JObj [(''_id'', JOid oid), (''name'', p_name p),
                             (''description'', p_description p), (''price'', JNum (p_price p)),
                             (''imageURL'', p_imageURL p), (''stock'', JNum u),
                             (''status'', JStr label)])])))
     \<and> (\<forall>st q. p_stock p = Fin st \<and> n = Fin q \<and> safe_integer (st - q) \<longrightarrow> u = Fin (st - q))"
proof -
  have object: "product_object oid p' =
      JObj [(''_id'', JOid oid), (''name'', p_name p), (''description'', p_description p),
            (''price'', JNum (p_price p)), (''imageURL'', p_imageURL p), (''stock'', JNum u),
            (''status'', JStr label)]"
    by (simp add: product_object_def assms(9))
  have run: "confirm_payment e s req =
      (s\<lparr>products := (products s)(oid \<mapsto> p'),
         gateway_log := gateway_log s @ [Retrieve (field (body req) ''paymentIntentId'')]\<rparr>,
       Sent (if p' = p then json 400 (message ''Failed to update product stock'')
             else json 200 (JObj [(''message'', JStr ''Payment succeeded''),
                                  (''product'', product_object oid p')])))"
    using confirm_succeeded_run [OF assms(1-6)] assms(7-9) by (simp add: Let_def)
  have exact: "\<forall>st q. p_stock p = Fin st \<and> n = Fin q \<and> safe_integer (st - q) \<longrightarrow> u = Fin (st - q)"
    using assms(7) by (auto simp: to_double_safe_integer)
  show ?thesis
    using run exact by (simp only: object)
qed

theorem confirm_payment_decrements_stock_witness:
  "confirm_payment demo_env demo_state (confirm_request keyboard_id ''pi_paid'' 2) =
     (demo_state\<lparr>products := (products demo_state)
                    (keyboard_id \<mapsto> keyboard\<lparr>p_stock := Fin 3, p_status := Some ''In Stock''\<rparr>),
                 gateway_log := [Retrieve (JStr ''pi_paid'')]\<rparr>,
      Sent (Response 200 (Json
        (JObj [(''message'', JStr ''Payment succeeded''),
               (''product'',
                JObj [(''_id'', JStr ''aaaaaaaaaaaaaaaaaaaaaaaa''), (''name'', JStr ''Keyboard''),
                      (''description'', JStr ''Mechanical''), (''price'', JNum (Fin 10)),
                      (''imageURL'', JStr ''k.png''), (''stock'', JNum (Fin 3)),
                      (''status'', JStr ''In Stock'')])]))))
   \<and> confirm_payment demo_env demo_state (confirm_request lamp_id ''pi_paid'' 1) =
     (demo_state\<lparr>products := (products demo_state)
                    (lamp_id \<mapsto> lamp\<lparr>p_stock := Fin 0, p_status := Some ''Out of Stock''\<rparr>),
                 gateway_log := [Retrieve (JStr ''pi_paid'')]\<rparr>,
      Sent (Response 200 (Json
        (JObj [(''message'', JStr ''Payment succeeded''),
               (''product'',
                JObj [(''_id'', JStr ''bbbbbbbbbbbbbbbbbbbbbbbb''), (''name'', JStr ''Lamp''),
                      (''description'', JStr ''Desk lamp''), (''price'', JNum (Fin 25)),
                      (''imageURL'', JStr ''l.png''), (''stock'', JNum (Fin 0)),
                      (''status'', JStr ''Out of Stock'')])]))))
   \<and> map_option p_stock
       (products (fst (confirm_payment demo_env demo_state
          (confirm_request keyboard_id ''pi_paid'' (3602879701896397 / 36028797018963968))))
          keyboard_id) = Some (Fin (2758454771764429 / 562949953421312))"
proof -
  have whole_numbers:
    "confirm_payment demo_env demo_state (confirm_request keyboard_id ''pi_paid'' 2) =
     (demo_state\<lparr>products := (products demo_state)
                    (keyboard_id \<mapsto> keyboard\<lparr>p_stock := Fin 3, p_status := Some ''In Stock''\<rparr>),
                 gateway_log := [Retrieve (JStr ''pi_paid'')]\<rparr>,
      Sent (Response 200 (Json
        (JObj [(''message'', JStr ''Payment succeeded''),
               (''product'',
                JObj [(''_id'', JStr ''aaaaaaaaaaaaaaaaaaaaaaaa''), (''name'', JStr ''Keyboard''),
                      (''description'', JStr ''Mechanical''), (''price'', JNum (Fin 10)),
                      (''imageURL'', JStr ''k.png''), (''stock'', JNum (Fin 3)),
                      (''status'', JStr ''In Stock'')])]))))
   \<and> confirm_payment demo_env demo_state (confirm_request lamp_id ''pi_paid'' 1) =
     (demo_state\<lparr>products := (products demo_state)
                    (lamp_id \<mapsto> lamp\<lparr>p_stock := Fin 0, p_status := Some ''Out of Stock''\<rparr>),
                 gateway_log := [Retrieve (JStr ''pi_paid'')]\<rparr>,
      Sent (Response 200 (Json
        (JObj [(''message'', JStr ''Payment succeeded''),
               (''product'',
                JObj [(''_id'', JStr ''bbbbbbbbbbbbbbbbbbbbbbbb''), (''name'', JStr ''Lamp''),
                      (''description'', JStr ''Desk lamp''), (''price'', JNum (Fin 25)),
                      (''imageURL'', JStr ''l.png''), (''stock'', JNum (Fin 0)),
                      (''status'', JStr ''Out of Stock'')])]))))"
  proof -
    let ?k = "confirm_request keyboard_id ''pi_paid'' 2"
    let ?l = "confirm_request lamp_id ''pi_paid'' 1"
    let ?paid = "\<lparr>client_secret = JStr ''pi_1_secret_x'', pi_status = JStr ''succeeded''\<rparr>"
    have idk: "ObjectId demo_env (param ?k) = Some keyboard_id"
      and idl: "ObjectId demo_env (param ?l) = Some lamp_id"
      by (simp_all add: confirm_request_simps demo_ids)
    have paidk: "stripe_retrieve demo_env (field (body ?k) ''paymentIntentId'') = Inr ?paid"
      and paidl: "stripe_retrieve demo_env (field (body ?l) ''paymentIntentId'') = Inr ?paid"
      by (simp_all add: confirm_request_simps demo_intents)
    have ok: "pi_status ?paid = JStr ''succeeded''"
      by simp
    have two: "ToNumber demo_env (field (body ?k) ''quantity'') = Inr (Fin 2)"
      and one: "ToNumber demo_env (field (body ?l) ''quantity'') = Inr (Fin 1)"
      by (simp_all add: confirm_request_simps)
    have three: "js_sub (p_stock keyboard) (Fin 2) = Fin 3"
      and zero: "js_sub (p_stock lamp) (Fin 1) = Fin 0"
      by (simp_all add: keyboard_def lamp_def to_double_safe_integer safe_integer_def whole_def)
    have k: ?thesis if
      "confirm_payment demo_env demo_state ?k =
         (demo_state\<lparr>products := (products demo_state)
                        (keyboard_id \<mapsto> keyboard\<lparr>p_stock := Fin 3, p_status := Some ''In Stock''\<rparr>),
                     gateway_log := gateway_log demo_state @ [Retrieve (JStr ''pi_paid'')]\<rparr>,
          Sent (json 200
            (JObj [(''message'', JStr ''Payment succeeded''),
                   (''product'',
                    JObj [(''_id'', JOid keyboard_id), (''name'', p_name keyboard),
                          (''description'', p_description keyboard),
                          (''price'', JNum (p_price keyboard)),
                          (''imageURL'', p_imageURL keyboard), (''stock'', JNum (Fin 3)),
                          (''status'', JStr ''In Stock'')])])))"
      "confirm_payment demo_env demo_state ?l =
         (demo_state\<lparr>products := (products demo_state)
                        (lamp_id \<mapsto> lamp\<lparr>p_stock := Fin 0, p_status := Some ''Out of Stock''\<rparr>),
                     gateway_log := gateway_log demo_state @ [Retrieve (JStr ''pi_paid'')]\<rparr>,
          Sent (json 200
            (JObj [(''message'', JStr ''Payment succeeded''),
                   (''product'',
                    JObj [(''_id'', JOid lamp_id), (''name'', p_name lamp),
                          (''description'', p_description lamp),
                          (''price'', JNum (p_price lamp)),
                          (''imageURL'', p_imageURL lamp), (''stock'', JNum (Fin 0)),
                          (''status'', JStr ''Out of Stock'')])])))"
      using that
      by (simp add: demo_log json_def keyboard_def lamp_def keyboard_id_def lamp_id_def)
    have changedk: "keyboard\<lparr>p_stock := Fin 3, p_status := Some ''In Stock''\<rparr> \<noteq> keyboard"
      and changedl: "lamp\<lparr>p_stock := Fin 0, p_status := Some ''Out of Stock''\<rparr> \<noteq> lamp"
      by (simp_all add: keyboard_def lamp_def)
    show ?thesis
    proof (rule k)
      show "confirm_payment demo_env demo_state ?k =
         (demo_state\<lparr>products := (products demo_state)
                        (keyboard_id \<mapsto> keyboard\<lparr>p_stock := Fin 3, p_status := Some ''In Stock''\<rparr>),
                     gateway_log := gateway_log demo_state @ [Retrieve (JStr ''pi_paid'')]\<rparr>,
          Sent (json 200
            (JObj [(''message'', JStr ''Payment succeeded''),
                   (''product'',
                    JObj [(''_id'', JOid keyboard_id), (''name'', p_name keyboard),
                          (''description'', p_description keyboard),
                          (''price'', JNum (p_price keyboard)),
                          (''imageURL'', p_imageURL keyboard), (''stock'', JNum (Fin 3)),
                          (''status'', JStr ''In Stock'')])])))"
        using confirm_payment_decrements_stock
          [OF demo_env_up idk demo_products(1) paidk ok two refl refl refl] changedk
        by (simp add: three confirm_request_simps)
      show "confirm_payment demo_env demo_state ?l =
         (demo_state\<lparr>products := (products demo_state)
                        (lamp_id \<mapsto> lamp\<lparr>p_stock := Fin 0, p_status := Some ''Out of Stock''\<rparr>),
                     gateway_log := gateway_log demo_state @ [Retrieve (JStr ''pi_paid'')]\<rparr>,
          Sent (json 200
            (JObj [(''message'', JStr ''Payment succeeded''),
                   (''product'',
                    JObj [(''_id'', JOid lamp_id), (''name'', p_name lamp),
                          (''description'', p_description lamp),
                          (''price'', JNum (p_price lamp)),
                          (''imageURL'', p_imageURL lamp), (''stock'', JNum (Fin 0)),
                          (''status'', JStr ''Out of Stock'')])])))"
        using confirm_payment_decrements_stock
          [OF demo_env_up idl demo_products(2) paidl ok one refl refl refl] changedl
        by (simp add: zero confirm_request_simps)
    qed
  qed
  let ?r = "confirm_request keyboard_id ''pi_paid'' (3602879701896397 / 36028797018963968)"
  have idr: "ObjectId demo_env (param ?r) = Some keyboard_id"
    by (simp add: confirm_request_simps demo_ids)
  have paidr: "stripe_retrieve demo_env (field (body ?r) ''paymentIntentId'') =
      Inr \<lparr>client_secret = JStr ''pi_1_secret_x'', pi_status = JStr ''succeeded''\<rparr>"
    by (simp add: confirm_request_simps demo_intents)
  have okr: "pi_status \<lparr>client_secret = JStr ''pi_1_secret_x'', pi_status = JStr ''succeeded''\<rparr>
      = JStr ''succeeded''"
    by simp
  have tenth: "ToNumber demo_env (field (body ?r) ''quantity'') =
      Inr (Fin (3602879701896397 / 36028797018963968))"
    by (simp add: confirm_request_simps)
  have stock: "p_stock keyboard = Fin 5"
    by (simp add: keyboard_def)
  have rounded: "map_option p_stock (products (fst (confirm_payment demo_env demo_state ?r))
      keyboard_id) = Some (Fin (2758454771764429 / 562949953421312))"
    using confirm_payment_decrements_stock
      [OF demo_env_up idr demo_products(1) paidr okr tenth refl refl refl]
    by (simp only: stock binary64_examples) simp
  show ?thesis
    using whole_numbers rounded by blast
qed

text \<open>
  C2. The confirmation does not look at whether the stock suffices: when the quantity
  exceeds the stock of an existing product (their difference a safe integer, as it is
  for whole numbers of stock and quantity) and the intent has succeeded, the update is
  applied all the same and the persisted stock is the negative number
  \<open>stock - quantity\<close>.
\<close>

theorem confirm_payment_no_sufficiency_check:
  assumes "store_up e" and "ObjectId e (param req) = Some oid" and "products s oid = Some p"
    and "stripe_retrieve e (field (body req) ''paymentIntentId'') = Inr intent"
    and "pi_status intent = JStr ''succeeded''"
    and "p_stock p = Fin st" and "ToNumber e (field (body req) ''quantity'') = Inr (Fin q)"
    and "safe_integer (st - q)"
    and "st < q"
  shows "map_option p_stock (products (fst (confirm_payment e s req)) oid) = Some (Fin (st - q))
         \<and> st - q < 0
         \<and> (q \<noteq> 0 \<longrightarrow> snd (confirm_payment e s req) =
              Sent (json 200 (JObj [(''message'', JStr ''Payment succeeded''),
                 (''product'', product_object oid
                     (p\<lparr>p_stock := Fin (st - q), p_status := Some ''In Stock''\<rparr>))])))"
proof -
  have neg: "st - q < 0" using assms(9) by simp
  then have nz: "st - q \<noteq> 0" by simp
  have sub: "js_sub (p_stock p) (Fin q) = Fin (st - q)"
    using assms(6,8) by (simp add: to_double_safe_integer)
  have changed: "q \<noteq> 0 \<Longrightarrow> p\<lparr>p_stock := Fin (st - q), p_status := Some ''In Stock''\<rparr> \<noteq> p"
  proof
    assume "q \<noteq> 0" and eq: "p\<lparr>p_stock := Fin (st - q), p_status := Some ''In Stock''\<rparr> = p"
    from eq have "p_stock (p\<lparr>p_stock := Fin (st - q), p_status := Some ''In Stock''\<rparr>) = p_stock p"
      by simp
    then have "Fin (st - q) = Fin st" using assms(6) by simp
    with \<open>q \<noteq> 0\<close> show False by simp
  qed
  show ?thesis
    using confirm_succeeded_run [OF assms(1-5,7)] neg nz changed
    by (simp add: Let_def sub)
qed

theorem confirm_payment_no_sufficiency_check_witness:
  "map_option p_stock
     (products (fst (confirm_payment demo_env demo_state (confirm_request lamp_id ''pi_paid'' 3)))
        lamp_id) = Some (Fin (- 2))
   \<and> snd (confirm_payment demo_env demo_state (confirm_request lamp_id ''pi_paid'' 3)) =
       Sent (json 200 (JObj [(''message'', JStr ''Payment succeeded''),
          (''product'', product_object lamp_id
                          (lamp\<lparr>p_stock := Fin (- 2), p_status := Some ''In Stock''\<rparr>))]))"
proof -
  let ?req = "confirm_request lamp_id ''pi_paid'' 3"
  have id: "ObjectId demo_env (param ?req) = Some lamp_id"
    by (simp add: confirm_request_simps demo_ids)
  have paid: "stripe_retrieve demo_env (field (body ?req) ''paymentIntentId'') =
      Inr \<lparr>client_secret = JStr ''pi_1_secret_x'', pi_status = JStr ''succeeded''\<rparr>"
    by (simp add: confirm_request_simps demo_intents)
  have ok: "pi_status \<lparr>client_secret = JStr ''pi_1_secret_x'', pi_status = JStr ''succeeded''\<rparr>
      = JStr ''succeeded''"
    by simp
  have stock: "p_stock lamp = Fin 1"
    by (simp add: lamp_def)
  have quantity: "ToNumber demo_env (field (body ?req) ''quantity'') = Inr (Fin 3)"
    by (simp add: confirm_request_simps)
  have safe: "safe_integer (1 - 3)"
    by (simp add: safe_integer_def whole_def)
  have more: "(1::rat) < 3"
    by simp
  show ?thesis
    using confirm_payment_no_sufficiency_check
      [OF demo_env_up id demo_products(2) paid ok stock quantity safe more]
    by simp
qed

text \<open>
  C5. For an existing product, any quantity and a payment intent whose status is not
  \<open>succeeded\<close>, the confirmation answers 400 \<open>Payment not successful\<close> and changes no
  document: the products collection, hence the product's stock and status, is as it
  was.
\<close>

theorem confirm_payment_not_succeeded:
  assumes "store_up e" and "ObjectId e (param req) = Some oid" and "products s oid = Some p"
    and "stripe_retrieve e (field (body req) ''paymentIntentId'') = Inr intent"
    and "pi_status intent \<noteq> JStr ''succeeded''"
  shows "confirm_payment e s req =
      (s\<lparr>gateway_log := gateway_log s @ [Retrieve (field (body req) ''paymentIntentId'')]\<rparr>,
       Sent (json 400 (message ''Payment not successful'')))
     \<and> products (fst (confirm_payment e s req)) = products s
     \<and> users (fst (confirm_payment e s req)) = users s"
  using assms
  by (simp add: confirm_payment_def confirm_payment_try_def findOne_product_def Let_def)

theorem confirm_payment_not_succeeded_witness:
  "confirm_payment demo_env demo_state (confirm_request keyboard_id ''pi_open'' 2) =
     (demo_state\<lparr>gateway_log := [Retrieve (JStr ''pi_open'')]\<rparr>,
      Sent (json 400 (message ''Payment not successful'')))
   \<and> products (fst (confirm_payment demo_env demo_state (confirm_request keyboard_id ''pi_open'' 2)))
       keyboard_id = Some keyboard"
proof -
  let ?req = "confirm_request keyboard_id ''pi_open'' 2"
  have id: "ObjectId demo_env (param ?req) = Some keyboard_id"
    by (simp add: confirm_request_simps demo_ids)
  have opened: "stripe_retrieve demo_env (field (body ?req) ''paymentIntentId'') =
      Inr \<lparr>client_secret = JStr ''pi_2_secret_y'', pi_status = JStr ''requires_payment_method''\<rparr>"
    by (simp add: confirm_request_simps demo_intents)
  have pending: "pi_status \<lparr>client_secret = JStr ''pi_2_secret_y'',
      pi_status = JStr ''requires_payment_method''\<rparr> \<noteq> JStr ''succeeded''"
    by simp
  show ?thesis
    using confirm_payment_not_succeeded [OF demo_env_up id demo_products(1) opened pending]
    by (simp add: confirm_request_simps demo_products demo_log)
qed

text \<open>
  C6. In a confirmation with a succeeded intent, when the update of stock and status
  reports \<open>modifiedCount = 0\<close>, the answer is 400 \<open>Failed to update product stock\<close>.
\<close>

theorem confirm_payment_nothing_modified:
  assumes "store_up e" and "ObjectId e (param req) = Some oid" and "products s oid = Some p"
    and "stripe_retrieve e (field (body req) ''paymentIntentId'') = Inr intent"
    and "pi_status intent = JStr ''succeeded''"
    and "ToNumber e (field (body req) ''quantity'') = Inr n"
    and "u = js_sub (p_stock p) n"
    and "updateOne_product e
           (s\<lparr>gateway_log := gateway_log s @ [Retrieve (field (body req) ''paymentIntentId'')]\<rparr>) oid
           (\<lambda>d. d\<lparr>p_stock := u,
                   p_status := Some (if js_seq u (Fin 0) then ''Out of Stock'' else ''In Stock'')\<rparr>)
         = (s2, Inr result)"
    and "modifiedCount result = 0"
  shows "snd (confirm_payment e s req) = Sent (json 400 (message ''Failed to update product stock''))"
  using assms
  by (simp add: confirm_payment_def confirm_payment_try_def findOne_product_def Let_def)

theorem confirm_payment_nothing_modified_witness:
  "snd (confirm_payment demo_env demo_state (confirm_request keyboard_id ''pi_paid'' 0)) =
     Sent (json 400 (message ''Failed to update product stock''))"
proof -
  let ?req = "confirm_request keyboard_id ''pi_paid'' 0"
  let ?s1 = "demo_state\<lparr>gateway_log :=
      gateway_log demo_state @ [Retrieve (field (body ?req) ''paymentIntentId'')]\<rparr>"
  have id: "ObjectId demo_env (param ?req) = Some keyboard_id"
    by (simp add: confirm_request_simps demo_ids)
  have paid: "stripe_retrieve demo_env (field (body ?req) ''paymentIntentId'') =
      Inr \<lparr>client_secret = JStr ''pi_1_secret_x'', pi_status = JStr ''succeeded''\<rparr>"
    by (simp add: confirm_request_simps demo_intents)
  have ok: "pi_status \<lparr>client_secret = JStr ''pi_1_secret_x'', pi_status = JStr ''succeeded''\<rparr>
      = JStr ''succeeded''"
    by simp
  have quantity: "ToNumber demo_env (field (body ?req) ''quantity'') = Inr (Fin 0)"
    by (simp add: confirm_request_simps)
  have u: "Fin 5 = js_sub (p_stock keyboard) (Fin 0)"
    by (simp add: keyboard_def to_double_safe_integer safe_integer_def whole_def)
  have upd: "updateOne_product demo_env ?s1 keyboard_id
      (\<lambda>d. d\<lparr>p_stock := Fin 5,
              p_status := Some (if js_seq (Fin 5) (Fin 0) then ''Out of Stock'' else ''In Stock'')\<rparr>)
      = (?s1\<lparr>products := (products ?s1)(keyboard_id \<mapsto> keyboard)\<rparr>,
         Inr \<lparr>matchedCount = 1, modifiedCount = 0\<rparr>)"
    by (simp add: updateOne_product_def demo_env_up demo_products keyboard_def)
  have none: "modifiedCount \<lparr>matchedCount = 1, modifiedCount = 0\<rparr> = 0"
    by simp
  show ?thesis
    using confirm_payment_nothing_modified
      [OF demo_env_up id demo_products(1) paid ok quantity u upd none]
    by simp
qed

section \<open>Payment initiation\<close>




text \<open>
  C4. For an existing product and a quantity above its stock, the purchase handler
  answers 400 \<open>Not enough stock available\<close>; the state is returned as it was, so the
  gateway's call log has no new entry and no payment intent is created.
\<close>

theorem purchase_insufficient_stock:
  assumes "store_up e" and "ObjectId e (param req) = Some oid" and "products s oid = Some p"
    and "p_stock p = Fin st" and "ToNumber e (field (body req) ''quantity'') = Inr (Fin q)"
    and "st < q"
  shows "purchase e s req = (s, Sent (json 400 (message ''Not enough stock available'')))
     \<and> gateway_log (fst (purchase e s req)) = gateway_log s"
  using assms
  by (simp add: purchase_def purchase_try_def findOne_product_def Let_def)

theorem purchase_insufficient_stock_witness:
  "purchase demo_env demo_state (purchase_request keyboard_id 6) =
     (demo_state, Sent (json 400 (message ''Not enough stock available'')))
   \<and> gateway_log (fst (purchase demo_env demo_state (purchase_request keyboard_id 6))) = []"
proof -
  let ?req = "purchase_request keyboard_id 6"
  have id: "ObjectId demo_env (param ?req) = Some keyboard_id"
    by (simp add: purchase_request_simps demo_ids)
  have stock: "p_stock keyboard = Fin 5"
    by (simp add: keyboard_def)
  have quantity: "ToNumber demo_env (field (body ?req) ''quantity'') = Inr (Fin 6)"
    by (simp add: purchase_request_simps)
  have short: "(5::rat) < 6"
    by simp
  show ?thesis
    using purchase_insufficient_stock
      [OF demo_env_up id demo_products(1) stock quantity short]
    by (simp add: demo_log)
qed

section \<open>Loading a product by id\<close>

text \<open>
  C7. GET /products/:id, the purchase handler and the confirmation each answer 404 with
  \<open>{message: "Product not found"}\<close> when the id is well-formed and no product has it;
  when a product has it, GET answers 200 with the product and the other two go on to
  an answer other than that 404.
\<close>

theorem product_lookup_not_found:
  assumes "store_up e" and "ObjectId e (param req) = Some oid"
  shows "(products s oid = None \<longrightarrow>
            get_product e s req = (s, Sent (json 404 (message ''Product not found'')))
          \<and> purchase e s req = (s, Sent (json 404 (message ''Product not found'')))
          \<and> confirm_payment e s req = (s, Sent (json 404 (message ''Product not found''))))
       \<and> (\<forall>p. products s oid = Some p \<longrightarrow>
            get_product e s req = (s, Sent (json 200 (product_object oid p)))
          \<and> snd (purchase e s req) \<noteq> Sent (json 404 (message ''Product not found''))
          \<and> snd (confirm_payment e s req) \<noteq> Sent (json 404 (message ''Product not found'')))"
  using assms
  by (auto simp add: get_product_def get_product_try_def purchase_def purchase_try_def
      confirm_payment_def confirm_payment_try_def findOne_product_def updateOne_product_def
      json_def Let_def split: sum.splits if_splits prod.splits)

theorem product_lookup_not_found_witness:
  "get_product demo_env demo_state (confirm_request absent_id ''pi_paid'' 1) =
     (demo_state, Sent (json 404 (message ''Product not found'')))
   \<and> purchase demo_env demo_state (confirm_request absent_id ''pi_paid'' 1) =
     (demo_state, Sent (json 404 (message ''Product not found'')))
   \<and> confirm_payment demo_env demo_state (confirm_request absent_id ''pi_paid'' 1) =
     (demo_state, Sent (json 404 (message ''Product not found'')))
   \<and> get_product demo_env demo_state (confirm_request lamp_id ''pi_paid'' 1) =
     (demo_state, Sent (json 200 (product_object lamp_id lamp)))
   \<and> snd (purchase demo_env demo_state (confirm_request lamp_id ''pi_paid'' 1)) \<noteq>
       Sent (json 404 (message ''Product not found''))
   \<and> snd (confirm_payment demo_env demo_state (confirm_request lamp_id ''pi_paid'' 1)) \<noteq>
       Sent (json 404 (message ''Product not found''))"
proof -
  have absent: "ObjectId demo_env (param (confirm_request absent_id ''pi_paid'' 1)) = Some absent_id"
    by (simp add: confirm_request_simps demo_ids)
  have present: "ObjectId demo_env (param (confirm_request lamp_id ''pi_paid'' 1)) = Some lamp_id"
    by (simp add: confirm_request_simps demo_ids)
  show ?thesis
    using product_lookup_not_found [OF demo_env_up absent, of demo_state]
      product_lookup_not_found [OF demo_env_up present, of demo_state]
    by (simp add: demo_products)
qed

section \<open>Registration\<close>

text \<open>
  C8, as the code has it. When the e-mail of a POST /user request matches a stored user,
  nothing is inserted and no stored field is updated: the state is returned as it was,
  and the answer is \<open>{status: "success", message: "Login success", token}\<close> with the
  token signed for this request. The answer holds no user record.
\<close>

theorem post_user_existing_email:
  assumes "store_up e"
    and "find (email_matches e (field (body req) ''email'')) (users s) = Some u"
  shows "post_user e s req =
      (s, Sent (Response 200 (Json (JObj [(''status'', JStr ''success''),
                                          (''message'', JStr ''Login success''),
                                          (''token'', JStr (createToken e (body req)))]))))"
  using assms
  by (simp add: post_user_def findOne_user_def send_def Let_def)

lemma first_registration:
  "post_user demo_env demo_state register_ann =
     (demo_state\<lparr>users := [ann_record]\<rparr>,
      Sent (Response 200 (Json (JObj [(''status'', JStr ''success''),
                                      (''message'', JStr ''Registration successful''),
                                      (''token'', JStr ''signed'')]))))"
  by (simp add: post_user_def findOne_user_def insertOne_user_def send_def createToken_def
      field_def register_ann_def ann_record_def demo_env_def demo_state_def Let_def)

theorem post_user_existing_email_witness:
  "post_user demo_env (demo_state\<lparr>users := [ann_record]\<rparr>) register_ann =
     (demo_state\<lparr>users := [ann_record]\<rparr>,
      Sent (Response 200 (Json (JObj [(''status'', JStr ''success''),
                                      (''message'', JStr ''Login success''),
                                      (''token'', JStr ''signed'')]))))"
proof -
  have known: "find (email_matches demo_env (field (body register_ann) ''email''))
      (users (demo_state\<lparr>users := [ann_record]\<rparr>)) = Some ann_record"
    by (simp add: demo_env_def register_ann_def ann_record_def field_def)
  have token: "createToken demo_env (body register_ann) = ''signed''"
    by (simp add: createToken_def demo_env_def)
  show ?thesis
    using post_user_existing_email [OF demo_env_up known]
    by (simp add: token)
qed

text \<open>
  The claim as the specification words it fails: after Ann has registered, registering
  her e-mail again is answered by an object whose members are three strings, none of
  them her stored record.
\<close>

theorem post_user_returns_no_record:
  "users (fst (post_user demo_env demo_state register_ann)) = [ann_record]
   \<and> \<not> spec_returns_record
         (snd (post_user demo_env (fst (post_user demo_env demo_state register_ann)) register_ann))
         ann_record"
proof -
  have again: "find (email_matches demo_env (field (body register_ann) ''email''))
      (users (demo_state\<lparr>users := [ann_record]\<rparr>)) = Some ann_record"
    by (simp add: demo_env_def register_ann_def ann_record_def field_def)
  have second: "snd (post_user demo_env (demo_state\<lparr>users := [ann_record]\<rparr>) register_ann) =
      Sent (Response 200 (Json (JObj [(''status'', JStr ''success''),
                                      (''message'', JStr ''Login success''),
                                      (''token'', JStr ''signed'')])))"
    using again
    by (simp add: post_user_def findOne_user_def send_def createToken_def demo_env_up Let_def)
      (simp add: demo_env_def)
  show ?thesis
    by (simp add: first_registration second spec_returns_record_def)
      (simp add: ann_record_def)
qed

section \<open>Exceptions that leave a handler\<close>

text \<open>
  C9 at a malformed id. GET /user/get/abc: the ObjectId constructor throws outside any
  \<open>try\<close>, so the handler sends nothing and the exception leaves it. GET /products/abc
  makes the same call inside its \<open>try\<close> and answers 500 with a JSON message.
\<close>

theorem get_user_by_id_malformed_id_escapes:
  "get_user_by_id demo_env demo_state \<lparr>param = ''abc'', body = [], authorization = None\<rparr>
     = (demo_state, Uncaught BSONError)
   \<and> get_product demo_env demo_state \<lparr>param = ''abc'', body = [], authorization = None\<rparr>
     = (demo_state, Sent (json 500 (message ''Failed to fetch product'')))"
  by (simp add: get_user_by_id_def get_product_def get_product_try_def demo_ids Let_def)

section \<open>Product update\<close>

text \<open>
  C10, as the code has it. For a PATCH /products/:id that passes verifyToken, whose
  price and stock the parsers convert, and whose id is well-formed and names a stored
  product, the update sets the five fields name, description, price, imageURL and stock
  from the request body, a field the body omits being stored as \<open>null\<close> (as NaN for
  price and stock); the stored status is not written and keeps its value. When the
  update modified the document the answer is the object built from the request, which
  is not the stored document; otherwise the answer is 404.
\<close>

theorem patch_product_sets_five_fields:
  assumes "verifyToken e req = Inr user" and "store_up e"
    and "ObjectId e (param req) = Some oid" and "products s oid = Some p"
    and "parseFloat e (field (body req) ''price'') = Inr pr"
    and "parseInt e (field (body req) ''stock'') = Inr st"
    and "p' = \<lparr>p_name = bson (field (body req) ''name''),
               p_description = bson (field (body req) ''description''),
               p_price = pr,
               p_imageURL = bson (field (body req) ''imageURL''),
               p_stock = st,
               p_status = p_status p\<rparr>"
  shows "patch_product_route e s req =
      (s\<lparr>products := (products s)(oid \<mapsto> p')\<rparr>,
       Sent (if p' = p then json 404 (message ''Product not found'')
             else json 200 (JObj [(''name'', field (body req) ''name''),
                                  (''description'', field (body req) ''description''),
                                  (''price'', JNum pr),
                                  (''imageURL'', field (body req) ''imageURL''),
                                  (''stock'', JNum st)])))
     \<and> snd (patch_product_route e s req) \<noteq> Sent (json 200 (product_object oid p'))
     \<and> (map_of (body req) ''name'' = None \<longrightarrow> p_name p' = JNull)
     \<and> (map_of (body req) ''description'' = None \<longrightarrow> p_description p' = JNull)
     \<and> (map_of (body req) ''price'' = None \<longrightarrow> p_price p' = NaN)
     \<and> (map_of (body req) ''imageURL'' = None \<longrightarrow> p_imageURL p' = JNull)
     \<and> (map_of (body req) ''stock'' = None \<longrightarrow> p_stock p' = NaN)"
proof -
  have upd: "p\<lparr>p_name := bson (field (body req) ''name''),
               p_description := bson (field (body req) ''description''),
               p_price := pr,
               p_imageURL := bson (field (body req) ''imageURL''),
               p_stock := st\<rparr> = p'"
    using assms(7) by simp
  have run: "patch_product_route e s req =
      (s\<lparr>products := (products s)(oid \<mapsto> p')\<rparr>,
       Sent (if p' = p then json 404 (message ''Product not found'')
             else json 200 (JObj [(''name'', field (body req) ''name''),
                                  (''description'', field (body req) ''description''),
                                  (''price'', JNum pr),
                                  (''imageURL'', field (body req) ''imageURL''),
                                  (''stock'', JNum st)])))"
    using assms(1-6)
    by (simp add: patch_product_route_def patch_product_def updateOne_product_def Let_def upd)
  have built: "snd (patch_product_route e s req) \<noteq> Sent (json 200 (product_object oid p'))"
    by (simp add: run json_def message_def product_object_def)
  have omitted: "\<And>k. map_of (body req) k = None \<Longrightarrow> field (body req) k = JUndefined"
    by (simp add: field_def)
  have price: "map_of (body req) ''price'' = None \<Longrightarrow> pr = NaN"
    using assms(5) omitted [of "''price''"] by simp
  have stock: "map_of (body req) ''stock'' = None \<Longrightarrow> st = NaN"
    using assms(6) omitted [of "''stock''"] by simp
  show ?thesis
    using run built omitted price stock by (simp add: assms(7) bson_def)
qed

theorem patch_product_sets_five_fields_witness:
  "patch_product_route demo_env demo_state restock_mug =
     (demo_state\<lparr>products := (products demo_state)
         (mug_id \<mapsto> \<lparr>p_name = JNull, p_description = JNull, p_price = NaN,
                      p_imageURL = JNull, p_stock = Fin 7,
                      p_status = Some ''Out of Stock''\<rparr>)\<rparr>,
      Sent (Response 200 (Json (JObj [(''price'', JNull), (''stock'', JNum (Fin 7))]))))"
proof -
  have id: "ObjectId demo_env (param restock_mug) = Some mug_id"
    by (simp add: restock_mug_def patch_request_def demo_ids)
  have auth: "verifyToken demo_env restock_mug = Inr (JStr ''ann@example.com'')"
    by (simp add: restock_mug_def patch_request_authorised)
  have price: "parseFloat demo_env (field (body restock_mug) ''price'') = Inr NaN"
    by (simp add: restock_mug_def patch_request_def field_def)
  have stock: "parseInt demo_env (field (body restock_mug) ''stock'') = Inr (Fin 7)"
    by (simp add: restock_mug_def patch_request_def field_def demo_env_def)
  show ?thesis
    using patch_product_sets_five_fields
      [OF auth demo_env_up id demo_products(3) price stock refl]
    by (simp add: restock_mug_def patch_request_def field_def bson_def mug_def json_def)
qed

text \<open>
  The claim as worded fails where the amended one differs from it. Restocking the mug
  with a body that names only the stock stores \<open>null\<close>, not undefined, for the fields
  omitted, and keeps the stored status \<open>Out of Stock\<close>. The same request without an
  Authorization header writes nothing and is answered 401; with a malformed id it is
  answered 400, with an absent id 404. A body that repeats the five stored values of
  the keyboard modifies nothing and is answered 404, not by the object built from it. A
  price that is an object with a \<open>toString\<close> member makes \<open>parseFloat\<close> throw outside the
  \<open>try\<close>, and nothing is answered.
\<close>

theorem patch_product_keeps_status:
  "map_of (body restock_mug) ''status'' = None
   \<and> products (fst (patch_product_route demo_env demo_state restock_mug)) mug_id =
       Some \<lparr>p_name = JNull, p_description = JNull, p_price = NaN, p_imageURL = JNull,
             p_stock = Fin 7, p_status = Some ''Out of Stock''\<rparr>
   \<and> patch_product_route demo_env demo_state (restock_mug\<lparr>authorization := None\<rparr>) =
       (demo_state, Sent (Response 401 (Text ''You are not authorized'')))
   \<and> patch_product_route demo_env demo_state (patch_request ''abc'' [(''stock'', JNum (Fin 7))]) =
       (demo_state, Sent (Response 400 (Json (JObj [(''message'', JStr ''Failed to update product'')]))))
   \<and> patch_product_route demo_env demo_state (patch_request absent_id [(''stock'', JNum (Fin 7))]) =
       (demo_state, Sent (Response 404 (Json (JObj [(''message'', JStr ''Product not found'')]))))
   \<and> snd (patch_product_route demo_env demo_state same_keyboard) =
       Sent (Response 404 (Json (JObj [(''message'', JStr ''Product not found'')])))
   \<and> products (fst (patch_product_route demo_env demo_state same_keyboard)) keyboard_id =
       Some keyboard
   \<and> patch_product_route demo_env demo_state
         (patch_request mug_id [(''price'', JObj [(''toString'', JNum (Fin 1))])]) =
       (demo_state, Uncaught TypeError)"
proof -
  have route: "\<And>pid b. patch_product_route demo_env demo_state (patch_request pid b) =
      patch_product demo_env demo_state (patch_request pid b)"
    by (simp add: patch_product_route_def patch_request_authorised)
  have restock: "products (fst (patch_product_route demo_env demo_state restock_mug)) mug_id =
       Some \<lparr>p_name = JNull, p_description = JNull, p_price = NaN, p_imageURL = JNull,
             p_stock = Fin 7, p_status = Some ''Out of Stock''\<rparr>"
    unfolding restock_mug_def route
    by (simp add: patch_product_def updateOne_product_def patch_request_def field_def
        demo_env_up demo_ids demo_products demo_parsers bson_def Let_def)
      (simp add: mug_def)
  have no_header: "patch_product_route demo_env demo_state (restock_mug\<lparr>authorization := None\<rparr>) =
       (demo_state, Sent (Response 401 (Text ''You are not authorized'')))"
    by (simp add: patch_product_route_def verifyToken_def unauthorized_def restock_mug_def
        patch_request_def)
  have malformed:
    "patch_product_route demo_env demo_state (patch_request ''abc'' [(''stock'', JNum (Fin 7))]) =
       (demo_state, Sent (Response 400 (Json (JObj [(''message'', JStr ''Failed to update product'')]))))"
    unfolding route
    by (simp add: patch_product_def patch_request_def field_def demo_ids demo_parsers Let_def
        json_def message_def)
  have absent:
    "patch_product_route demo_env demo_state (patch_request absent_id [(''stock'', JNum (Fin 7))]) =
       (demo_state, Sent (Response 404 (Json (JObj [(''message'', JStr ''Product not found'')]))))"
    unfolding route
    by (simp add: patch_product_def updateOne_product_def patch_request_def field_def
        demo_env_up demo_ids demo_products demo_parsers Let_def json_def message_def)
  have same: "snd (patch_product_route demo_env demo_state same_keyboard) =
       Sent (Response 404 (Json (JObj [(''message'', JStr ''Product not found'')])))
     \<and> products (fst (patch_product_route demo_env demo_state same_keyboard)) keyboard_id =
       Some keyboard"
    unfolding same_keyboard_def route
    by (simp add: patch_product_def updateOne_product_def patch_request_def field_def
        demo_env_up demo_ids demo_products demo_parsers bson_def Let_def json_def message_def)
      (simp add: keyboard_def)
  have throws: "patch_product_route demo_env demo_state
         (patch_request mug_id [(''price'', JObj [(''toString'', JNum (Fin 1))])]) =
       (demo_state, Uncaught TypeError)"
    unfolding route
    by (simp add: patch_product_def patch_request_def field_def demo_parsers Let_def)
  show ?thesis
    using restock no_header malformed absent same throws
    by (simp add: restock_mug_def patch_request_def)
qed

end
